theory Spec2Isabelle
  imports Complex_Main "HOL-Library.Word"
begin

unbundle bit_operations_syntax

section \<open>JavaScript values\<close>

text \<open>
  A JavaScript number: a finite value, the two infinities, or NaN. Finite values are
  rationals (negative zero is not distinguished from zero).
\<close>

datatype number = Fin rat | PosInfinity | NegInfinity | NaN

datatype jsval =
    JUndefined
  | JNull
  | JBoolean bool
  | JNumber number
  | JString string
  | JObject nat
  | JFunction nat
  | JSymbol nat
  | JBigInt int

text \<open>The \<^verbatim>\<open>typeof\<close> operator.\<close>

fun typeof :: "jsval \<Rightarrow> string" where
  "typeof JUndefined = ''undefined''"
| "typeof JNull = ''object''"
| "typeof (JBoolean b) = ''boolean''"
| "typeof (JNumber n) = ''number''"
| "typeof (JString s) = ''string''"
| "typeof (JObject r) = ''object''"
| "typeof (JFunction r) = ''function''"
| "typeof (JSymbol r) = ''symbol''"
| "typeof (JBigInt i) = ''bigint''"

text \<open>ToBoolean on a number, and on any value (\<^verbatim>\<open>v ? a : b\<close>, \<^verbatim>\<open>v && e\<close>).\<close>

fun truthyNumber :: "number \<Rightarrow> bool" where
  "truthyNumber (Fin r) = (r \<noteq> 0)"
| "truthyNumber NaN = False"
| "truthyNumber PosInfinity = True"
| "truthyNumber NegInfinity = True"

fun truthy :: "jsval \<Rightarrow> bool" where
  "truthy JUndefined = False"
| "truthy JNull = False"
| "truthy (JBoolean b) = b"
| "truthy (JNumber n) = truthyNumber n"
| "truthy (JString s) = (s \<noteq> [])"
| "truthy (JObject r) = True"
| "truthy (JFunction r) = True"
| "truthy (JSymbol r) = True"
| "truthy (JBigInt i) = (i \<noteq> 0)"

text \<open>
  ToInt32: truncate towards zero, then wrap into 32 bits; NaN and the infinities give 0.
  The bitwise operators convert both operands and give the signed 32-bit result back
  as a number.
\<close>

fun ToInt32 :: "number \<Rightarrow> 32 word" where
  "ToInt32 (Fin r) = word_of_int (if 0 \<le> r then \<lfloor>r\<rfloor> else \<lceil>r\<rceil>)"
| "ToInt32 PosInfinity = 0"
| "ToInt32 NegInfinity = 0"
| "ToInt32 NaN = 0"

definition bitAnd :: "number \<Rightarrow> number \<Rightarrow> number" where
  "bitAnd a b = Fin (of_int (sint (ToInt32 a AND ToInt32 b)))"

definition bitXor :: "number \<Rightarrow> number \<Rightarrow> number" where
  "bitXor a b = Fin (of_int (sint (ToInt32 a XOR ToInt32 b)))"

datatype error = TypeError

section \<open>Geometry, events and options\<close>

text \<open>
  A \<^verbatim>\<open>LatLng\<close> is an object: \<open>ref\<close> is its identity, \<open>lat\<close> and \<open>lng\<close> its value.
  A \<^verbatim>\<open>Point\<close> is a pixel position in the map container.
\<close>

record LatLng =
  ref :: nat
  lat :: rat
  lng :: rat

record Point =
  px :: rat
  py :: rat

text \<open>
  Events. A touch of a touch list carries client coordinates only; a DOM event may carry
  a touch list; the event a handler receives may carry \<^verbatim>\<open>type\<close>, \<^verbatim>\<open>latlng\<close> and the
  wrapped \<^verbatim>\<open>originalEvent\<close>. A field that is \<^verbatim>\<open>undefined\<close> is \<open>None\<close>; a touch event
  of the browser, for one, has a touch list and no client coordinates of its own.
\<close>

record pointer =
  clientX :: "rat option"
  clientY :: "rat option"

record dom_event = pointer +
  touches :: "pointer list option"

record event = dom_event +
  etype :: "string option"
  latlng :: "LatLng option"
  originalEvent :: "dom_event option"

definition pointerOf :: "'a pointer_scheme \<Rightarrow> pointer" where
  "pointerOf e = \<lparr>clientX = clientX e, clientY = clientY e\<rparr>"

definition domEventOf :: "'a dom_event_scheme \<Rightarrow> dom_event" where
  "domEventOf e = \<lparr>clientX = clientX e, clientY = clientY e, touches = touches e\<rparr>"

text \<open>The object \<^verbatim>\<open>{}\<close> that \<^verbatim>\<open>cancel\<close> hands to \<^verbatim>\<open>mouseUp\<close>.\<close>

definition emptyObject :: event where
  "emptyObject = \<lparr>clientX = None, clientY = None, touches = None,
     etype = None, latlng = None, originalEvent = None\<rparr>"

text \<open>
  \<^verbatim>\<open>this.options\<close>: the ten fields of \<^verbatim>\<open>defaultOptions\<close>, and the four style fields
  \<^verbatim>\<open>createPath\<close> reads, which have no default.
\<close>

record options =
  mode :: number
  smoothFactor :: number
  elbowDistance :: number
  simplifyFactor :: number
  mergePolygons :: bool
  concavePolygon :: bool
  maximumPolygons :: number
  notifyAfterEditExit :: bool
  leaveModeAfterCreate :: bool
  strokeWidth :: number
  lineclass :: "string option"
  fill :: "string option"
  fillOpacity :: "number option"
  stroke :: "string option"

text \<open>The options object a caller passes: every field may be absent.\<close>

record given_options =
  given_mode :: "number option"
  given_smoothFactor :: "number option"
  given_elbowDistance :: "number option"
  given_simplifyFactor :: "number option"
  given_mergePolygons :: "bool option"
  given_concavePolygon :: "bool option"
  given_maximumPolygons :: "number option"
  given_notifyAfterEditExit :: "bool option"
  given_leaveModeAfterCreate :: "bool option"
  given_strokeWidth :: "number option"
  given_lineclass :: "string option"
  given_fill :: "string option"
  given_fillOpacity :: "number option"
  given_stroke :: "string option"

text \<open>
  \<^verbatim>\<open>defaultOptions\<close> (lines 28-39). The flag \<^verbatim>\<open>ALL\<close> comes from \<^verbatim>\<open>helpers/Flags\<close>,
  which is not among the sources, so it is the parameter \<open>flagALL\<close>.
\<close>

definition defaultOptions :: "number \<Rightarrow> options" where
  "defaultOptions flagALL = \<lparr>
     mode = flagALL,
     smoothFactor = Fin (3 / 10),
     elbowDistance = Fin 10,
     simplifyFactor = Fin (11 / 10),
     mergePolygons = True,
     concavePolygon = True,
     maximumPolygons = PosInfinity,
     notifyAfterEditExit = False,
     leaveModeAfterCreate = False,
     strokeWidth = Fin 2,
     lineclass = None, fill = None, fillOpacity = None, stroke = None\<rparr>"

text \<open>An options record read as the object a caller could pass (all its fields present).\<close>

definition asGiven :: "options \<Rightarrow> given_options" where
  "asGiven d = \<lparr>
     given_mode = Some (mode d),
     given_smoothFactor = Some (smoothFactor d),
     given_elbowDistance = Some (elbowDistance d),
     given_simplifyFactor = Some (simplifyFactor d),
     given_mergePolygons = Some (mergePolygons d),
     given_concavePolygon = Some (concavePolygon d),
     given_maximumPolygons = Some (maximumPolygons d),
     given_notifyAfterEditExit = Some (notifyAfterEditExit d),
     given_leaveModeAfterCreate = Some (leaveModeAfterCreate d),
     given_strokeWidth = Some (strokeWidth d),
     given_lineclass = lineclass d,
     given_fill = fill d,
     given_fillOpacity = fillOpacity d,
     given_stroke = stroke d\<rparr>"

text \<open>The object spread \<^verbatim>\<open>{ ...d, ...g }\<close>: a field of \<open>g\<close> that is present wins.\<close>

definition override :: "'a \<Rightarrow> 'a option \<Rightarrow> 'a" where
  "override d g = (case g of Some v \<Rightarrow> v | None \<Rightarrow> d)"

definition spread :: "options \<Rightarrow> given_options \<Rightarrow> options" where
  "spread d g = \<lparr>
     mode = override (mode d) (given_mode g),
     smoothFactor = override (smoothFactor d) (given_smoothFactor g),
     elbowDistance = override (elbowDistance d) (given_elbowDistance g),
     simplifyFactor = override (simplifyFactor d) (given_simplifyFactor g),
     mergePolygons = override (mergePolygons d) (given_mergePolygons g),
     concavePolygon = override (concavePolygon d) (given_concavePolygon g),
     maximumPolygons = override (maximumPolygons d) (given_maximumPolygons g),
     notifyAfterEditExit = override (notifyAfterEditExit d) (given_notifyAfterEditExit g),
     leaveModeAfterCreate = override (leaveModeAfterCreate d) (given_leaveModeAfterCreate g),
     strokeWidth = override (strokeWidth d) (given_strokeWidth g),
     lineclass = (case given_lineclass g of Some v \<Rightarrow> Some v | None \<Rightarrow> lineclass d),
     fill = (case given_fill g of Some v \<Rightarrow> Some v | None \<Rightarrow> fill d),
     fillOpacity = (case given_fillOpacity g of Some v \<Rightarrow> Some v | None \<Rightarrow> fillOpacity d),
     stroke = (case given_stroke g of Some v \<Rightarrow> Some v | None \<Rightarrow> stroke d)\<rparr>"

text \<open>
  The constructor (lines 78-82): \<^verbatim>\<open>options\<close> defaults to \<^verbatim>\<open>defaultOptions\<close> when the
  argument is left out (\<open>None\<close>), and \<^verbatim>\<open>this.options = { ...defaultOptions, ...options }\<close>.
  The instance has no map and no mouse-down handler yet (see \<open>freedraw\<close> below).
\<close>

definition constructorOptions :: "number \<Rightarrow> given_options option \<Rightarrow> options" where
  "constructorOptions flagALL arg =
     (let passed = (case arg of None \<Rightarrow> asGiven (defaultOptions flagALL) | Some g \<Rightarrow> g)
      in spread (defaultOptions flagALL) passed)"

section \<open>The state of an instance on a map\<close>

text \<open>
  \<^verbatim>\<open>map[cancelKey]\<close> holds one of two functions: \<^verbatim>\<open>() => {}\<close> or
  \<^verbatim>\<open>() => mouseUp({}, false)\<close>.
\<close>

datatype cancel_fn = Noop | CancelCapture

text \<open>A polygon of the store is an object: \<open>pid\<close> is its identity.\<close>

record polygon =
  pid :: nat
  boundary :: "LatLng list"

text \<open>
  The closure \<^verbatim>\<open>createPath\<close> returns keeps \<^verbatim>\<open>lastPoint\<close> and the stroke width; each
  call appends one \<^verbatim>\<open>path\<close> element to the SVG layer.
\<close>

record path_iter =
  lastPoint :: Point
  iterStrokeWidth :: number

record svg_path =
  lineData :: "Point \<times> Point"
  pathClass :: string
  pathFill :: string
  pathFillOpacity :: number
  pathStroke :: string
  pathStrokeWidth :: number

text \<open>
  What \<^verbatim>\<open>onAdd\<close> hangs on the map, and the variables the closures of
  \<^verbatim>\<open>listenForEvents\<close> share:
  \<^item> \<open>host\<close>: the state of the host map library (it allocates the \<^verbatim>\<open>LatLng\<close> objects);
  \<^item> \<open>modes\<close>: \<^verbatim>\<open>map[modesKey]\<close>;
  \<^item> \<open>cancelHook\<close>: \<^verbatim>\<open>map[cancelKey]\<close>, \<open>None\<close> once deleted;
  \<^item> \<open>store\<close>: \<^verbatim>\<open>polygons.get(map)\<close>, a set in insertion order, \<open>None\<close> once deleted;
  \<^item> \<open>notifications\<close>: the change notifications sent so far, oldest first, each with
    its reason and the polygon list it carries;
  \<^item> \<open>svg\<close>: the children of the SVG layer; \<open>svgAttached\<close>: the layer is in the document;
  \<^item> \<open>latLngs\<close>, \<open>lineIterator\<close>: the two \<^verbatim>\<open>let\<close> variables of \<^verbatim>\<open>listenForEvents\<close>;
  \<^item> \<open>on_mousemove\<close>, \<open>on_mouseup\<close>: \<^verbatim>\<open>mouseMove\<close> and \<^verbatim>\<open>mouseUp\<close> are registered on the map;
  \<^item> \<open>on_touchmove\<close>, \<open>on_touchend\<close>: they are registered on the map container;
  \<^item> \<open>on_body_mouseleave\<close>: \<^verbatim>\<open>mouseUp\<close> is registered on the document body.
\<close>

record 'h map_state =
  host :: 'h
  modes :: number
  cancelHook :: "cancel_fn option"
  store :: "polygon list option"
  notifications :: "(string \<times> polygon list) list"
  svg :: "svg_path list"
  svgAttached :: bool
  latLngs :: "LatLng list"
  lineIterator :: "path_iter option"
  on_mousemove :: bool
  on_mouseup :: bool
  on_touchmove :: bool
  on_touchend :: bool
  on_body_mouseleave :: bool

text \<open>
  The instance: \<^verbatim>\<open>this.options\<close>, \<^verbatim>\<open>this.map\<close> (\<open>None\<close> until \<^verbatim>\<open>onAdd\<close>),
  whether \<^verbatim>\<open>this.mouseDownHandler\<close> is set, and whether the host has the layer on a map.
\<close>

record 'h freedraw =
  this_options :: options
  this_map :: "'h map_state option"
  this_mouseDownHandler :: bool
  onMap :: bool

definition FreeDraw_constructor :: "number \<Rightarrow> given_options option \<Rightarrow> 'h freedraw" where
  "FreeDraw_constructor flagALL arg =
     \<lparr>this_options = constructorOptions flagALL arg, this_map = None,
      this_mouseDownHandler = False, onMap = False\<rparr>"

text \<open>
  What the file takes from outside:
  \<^item> \<open>CREATE\<close>: the flag of \<^verbatim>\<open>helpers/Flags\<close>;
  \<^item> the host map's conversions; \<^verbatim>\<open>containerPointToLatLng\<close> returns an object, so it
    reads and advances the host's state;
  \<^item> \<open>simplifyPolygon\<close>: the routine \<^verbatim>\<open>onAdd\<close> injects into the map; \<open>convexHull\<close> and
    \<open>admit\<close>: the hull and the merge, cap and insertion steps of the polygon builder.
\<close>

record 'h env =
  CREATE :: number
  mouseEventToContainerPoint :: "pointer \<Rightarrow> Point"
  latLngToContainerPoint :: "LatLng \<Rightarrow> Point"
  containerPointToLatLng :: "Point \<Rightarrow> 'h \<Rightarrow> LatLng \<times> 'h"
  simplifyPolygon :: "number \<Rightarrow> LatLng list \<Rightarrow> LatLng list"
  convexHull :: "LatLng list \<Rightarrow> LatLng list"
  admit :: "options \<Rightarrow> LatLng list \<Rightarrow> polygon list \<Rightarrow> polygon list"

section \<open>The helpers\<close>

text \<open>
  Modelled from the spec: \<^verbatim>\<open>modeFor\<close> of \<^verbatim>\<open>helpers/Flags\<close> is not among the sources.
  The spec (4.1): it "validates and assigns \<open>modeSet\<close> to the map". The edit handles and
  the deferred edit notification are not modelled.
\<close>

definition modeFor :: "number \<Rightarrow> options \<Rightarrow> 'h map_state \<Rightarrow> 'h map_state" where
  "modeFor newMode opts m = m\<lparr>modes := newMode\<rparr>"

text \<open>
  Modelled from the spec: \<^verbatim>\<open>updateFor\<close> of \<^verbatim>\<open>helpers/Layer\<close> is not among the sources.
  The spec (6): "a change notification emitted after every create/remove/clear/edit-exit
  with a reason tag, carrying the current full Polygon list". The spec (4.5): without
  the per-map state an operation is a no-op; so a map whose store has been deleted gets
  no notification.
\<close>

definition updateFor :: "string \<Rightarrow> 'h map_state \<Rightarrow> 'h map_state" where
  "updateFor reason m =
     (case store m of
        None \<Rightarrow> m
      | Some st \<Rightarrow> m\<lparr>notifications := notifications m @ [(reason, st)]\<rparr>)"

text \<open>
  Modelled from the spec: \<^verbatim>\<open>createFor\<close> of \<^verbatim>\<open>helpers/Polygon\<close> is not among the sources.
  The spec (4.3): simplify the point sequence (step 1); take the convex hull unless
  \<open>concavePolygon\<close> (step 2); "if fewer than 3 distinct vertices remain, fail with
  InsufficientPoints and produce no polygon" (step 4); otherwise merge, check the cap and
  insert (steps 5-7, the parameter \<open>admit\<close>). Vertices are distinct by latitude and
  longitude.
\<close>

definition usableVertices :: "'h env \<Rightarrow> options \<Rightarrow> LatLng list \<Rightarrow> LatLng list" where
  "usableVertices E opts pts =
     (let simplified = simplifyPolygon E (simplifyFactor opts) pts
      in if concavePolygon opts then simplified else convexHull E simplified)"

definition distinctVertices :: "LatLng list \<Rightarrow> nat" where
  "distinctVertices ps = length (remdups (map (\<lambda>p. (lat p, lng p)) ps))"

definition createFor :: "'h env \<Rightarrow> options \<Rightarrow> LatLng list \<Rightarrow> polygon list \<Rightarrow> polygon list" where
  "createFor E opts pts st =
     (let ring = usableVertices E opts pts
      in if distinctVertices ring < 3 then st else admit E opts ring st)"

text \<open>
  Modelled from the spec: \<^verbatim>\<open>removeFor\<close> of \<^verbatim>\<open>helpers/Polygon\<close> is not among the sources.
  The spec (4.3): it "deletes one Polygon from the Store"; "removing an absent polygon
  is a no-op". The store holds objects, so the polygon is found by identity.
\<close>

definition removeFor :: "jsval \<Rightarrow> polygon list \<Rightarrow> polygon list" where
  "removeFor v st = (case v of JObject r \<Rightarrow> filter (\<lambda>p. pid p \<noteq> r) st | _ \<Rightarrow> st)"

text \<open>
  \<^verbatim>\<open>createFor\<close> and \<^verbatim>\<open>removeFor\<close> act on the store of the map; they too do nothing
  without it.
\<close>

definition onStore :: "(polygon list \<Rightarrow> polygon list) \<Rightarrow> 'h map_state \<Rightarrow> 'h map_state" where
  "onStore f m = m\<lparr>store := map_option f (store m)\<rparr>"

section \<open>The instance's methods and the pointer handlers\<close>

text \<open>
  \<^verbatim>\<open>mode\<close> (lines 181-185) on an instance whose \<^verbatim>\<open>this.map\<close> is \<open>m\<close>: the parameter
  defaults to \<^verbatim>\<open>null\<close>; a number is handed to \<^verbatim>\<open>modeFor\<close>; the result is
  \<^verbatim>\<open>this.map[modesKey]\<close>. Without a map, reading \<^verbatim>\<open>this.map[modesKey]\<close> throws.
\<close>

definition modeAttached :: "options \<Rightarrow> jsval \<Rightarrow> 'h map_state \<Rightarrow> number \<times> 'h map_state" where
  "modeAttached opts arg m =
     (let v = (if arg = JUndefined then JNull else arg);
          m' = (if typeof v = ''number''
                then (case v of JNumber n \<Rightarrow> modeFor n opts m | _ \<Rightarrow> m)
                else m)
      in (modes m', m'))"

definition FreeDraw_mode :: "jsval \<Rightarrow> 'h freedraw \<Rightarrow> error + (number \<times> 'h freedraw)" where
  "FreeDraw_mode arg fd =
     (case this_map fd of
        None \<Rightarrow> Inl TypeError
      | Some m \<Rightarrow>
          (let (r, m') = modeAttached (this_options fd) arg m
           in Inr (r, fd\<lparr>this_map := Some m'\<rparr>)))"


text \<open>
  \<^verbatim>\<open>createPath\<close> (lines 393-410) and a call of the closure it returns. \<^verbatim>\<open>a || b\<close> on an
  optional string or number takes \<open>b\<close> when \<open>a\<close> is absent, empty, zero or NaN.
\<close>

definition createPath :: "Point \<Rightarrow> number \<Rightarrow> path_iter" where
  "createPath fromPoint sw = \<lparr>lastPoint = fromPoint, iterStrokeWidth = sw\<rparr>"

definition stringOr :: "string option \<Rightarrow> string \<Rightarrow> string" where
  "stringOr a b = (case a of Some s \<Rightarrow> (if s \<noteq> [] then s else b) | None \<Rightarrow> b)"

definition numberOr :: "number option \<Rightarrow> number \<Rightarrow> number" where
  "numberOr a b = (case a of Some n \<Rightarrow> (if truthyNumber n then n else b) | None \<Rightarrow> b)"

definition drawTo :: "options \<Rightarrow> path_iter \<Rightarrow> Point \<Rightarrow> svg_path list \<Rightarrow> path_iter \<times> svg_path list" where
  "drawTo opts it toPoint paths =
     (it\<lparr>lastPoint := toPoint\<rparr>,
      paths @ [\<lparr>lineData = (lastPoint it, toPoint),
                pathClass = stringOr (lineclass opts) ''leaflet-line'',
                pathFill = stringOr (fill opts) ''none'',
                pathFillOpacity = numberOr (fillOpacity opts) (Fin 1),
                pathStroke = stringOr (stroke opts) ''black'',
                pathStrokeWidth = iterStrokeWidth it\<rparr>])"

text \<open>
  \<^verbatim>\<open>Set.prototype.add\<close> on a set of objects: membership is object identity, and a new
  member goes last.
\<close>

definition Set_add :: "LatLng \<Rightarrow> LatLng list \<Rightarrow> LatLng list" where
  "Set_add v s = (if ref v \<in> set (map ref s) then s else s @ [v])"

text \<open>
  \<^verbatim>\<open>mouseMove\<close> (lines 243-264). The pointer is \<^verbatim>\<open>event.originalEvent || event\<close>, or its
  first touch when it has a touch list. An exception leaves what was done before it: the
  result is the error, if any, and the state.
\<close>

definition mouseMove :: "'h env \<Rightarrow> options \<Rightarrow> event \<Rightarrow> 'h map_state \<Rightarrow> error option \<times> 'h map_state" where
  "mouseMove E opts ev m =
     (let e = (case originalEvent ev of Some orig \<Rightarrow> orig | None \<Rightarrow> domEventOf ev);
          first = (case touches e of
                     Some ts \<Rightarrow> (case ts of [] \<Rightarrow> None | t # _ \<Rightarrow> Some t)
                   | None \<Rightarrow> Some (pointerOf e))
      in case first of
           None \<Rightarrow> (Some TypeError, m)
         | Some p \<Rightarrow>
             (let point = mouseEventToContainerPoint E p;
                  (ll, h) = containerPointToLatLng E point (host m);
                  m1 = m\<lparr>host := h, latLngs := Set_add ll (latLngs m)\<rparr>;
                  svgpoint = \<lparr>px = px point, py = py point\<rparr>
              in case lineIterator m1 of
                   None \<Rightarrow> (Some TypeError, m1)
                 | Some it \<Rightarrow>
                     (let (it', paths) = drawTo opts it svgpoint (svg m1)
                      in (None, m1\<lparr>lineIterator := Some it', svg := paths\<rparr>))))"

text \<open>
  \<^verbatim>\<open>mouseUp\<close> (lines 271-310). \<open>create\<close> is \<^verbatim>\<open>true\<close> when the handler is called with the
  event alone. The document has a body, so the body's listener is always removed here
  and always added in \<^verbatim>\<open>mouseDown\<close>.
\<close>

definition mouseUp :: "'h env \<Rightarrow> options \<Rightarrow> event \<Rightarrow> bool \<Rightarrow> 'h map_state \<Rightarrow> 'h map_state" where
  "mouseUp E opts ev create m =
     (if etype ev = Some ''pointercancel'' then m
      else
        (let m1 = m\<lparr>cancelHook := Some Noop,
                     on_mouseup := False, on_mousemove := False,
                     on_touchmove := False, on_touchend := False,
                     on_body_mouseleave := False,
                     svg := []\<rparr>
         in if create then
              (let m2 = (if latLngs m1 \<noteq> []
                         then onStore (createFor E opts (latLngs m1)) m1 else m1);
                   m3 = updateFor ''create'' m2
               in if leaveModeAfterCreate opts then
                    (let (current, m4) = modeAttached opts JUndefined m3
                     in snd (modeAttached opts (JNumber (bitXor current (CREATE E))) m4))
                  else m3)
            else m1))"

text \<open>
  \<^verbatim>\<open>mouseDown\<close> (lines 331-379). \<^verbatim>\<open>preventDefault\<close> acts on the event only.
\<close>

definition mouseDown :: "'h env \<Rightarrow> options \<Rightarrow> event \<Rightarrow> 'h map_state \<Rightarrow> 'h map_state" where
  "mouseDown E opts ev m =
     (if \<not> truthyNumber (bitAnd (modes m) (CREATE E)) then m
      else if clientX ev = Some 0 \<and> clientY ev = Some 0 then m
      else
        (let point = (case latlng ev of
                        Some ll \<Rightarrow> latLngToContainerPoint E ll
                      | None \<Rightarrow> mouseEventToContainerPoint E (pointerOf ev));
             m1 = m\<lparr>latLngs := [],
                     lineIterator := Some (createPath point (strokeWidth opts))\<rparr>;
             m2 = (if touches ev = None
                   then m1\<lparr>on_mousemove := True, on_mouseup := True\<rparr> else m1)
         in m2\<lparr>on_body_mouseleave := True, cancelHook := Some CancelCapture\<rparr>))"

text \<open>
  \<^verbatim>\<open>touchStart\<close> (lines 312-324). \<^verbatim>\<open>_simulateEvent\<close> (lines 211-224) dispatches a mouse
  event of type \<^verbatim>\<open>mousedown\<close>, made by \<^verbatim>\<open>initMouseEvent\<close> from \<^verbatim>\<open>e.clientX\<close> and
  \<^verbatim>\<open>e.clientY\<close>; the container's \<^verbatim>\<open>mousedown\<close> listener is \<^verbatim>\<open>mouseDown\<close>.
  \<^verbatim>\<open>initMouseEvent\<close> takes its coordinates as 32-bit integers: a fraction is cut off,
  and \<^verbatim>\<open>undefined\<close> becomes 0.
\<close>

definition toLong :: "rat option \<Rightarrow> rat" where
  "toLong v = (case v of None \<Rightarrow> 0 | Some r \<Rightarrow> of_int (sint (ToInt32 (Fin r))))"

definition simulateEvent :: "string \<Rightarrow> event \<Rightarrow> event" where
  "simulateEvent ty e =
     \<lparr>clientX = Some (toLong (clientX e)), clientY = Some (toLong (clientY e)),
      touches = None, etype = Some ty, latlng = None, originalEvent = None\<rparr>"

definition touchStart :: "'h env \<Rightarrow> options \<Rightarrow> event \<Rightarrow> 'h map_state \<Rightarrow> 'h map_state" where
  "touchStart E opts ev m =
     (if \<not> truthyNumber (bitAnd (modes m) (CREATE E)) then m
      else mouseDown E opts (simulateEvent ''mousedown'' ev)
             (m\<lparr>on_touchmove := True, on_touchend := True\<rparr>))"

text \<open>
  \<^verbatim>\<open>cancel\<close> (lines 207-209): \<^verbatim>\<open>this.map[cancelKey]()\<close>. Calling what is not there
  throws.
\<close>

definition cancelAttached :: "'h env \<Rightarrow> options \<Rightarrow> 'h map_state \<Rightarrow> error + 'h map_state" where
  "cancelAttached E opts m =
     (case cancelHook m of
        None \<Rightarrow> Inl TypeError
      | Some Noop \<Rightarrow> Inr m
      | Some CancelCapture \<Rightarrow> Inr (mouseUp E opts emptyObject False m))"

definition cancel :: "'h env \<Rightarrow> 'h freedraw \<Rightarrow> error + 'h freedraw" where
  "cancel E fd =
     (case this_map fd of
        None \<Rightarrow> Inl TypeError
      | Some m \<Rightarrow>
          (case cancelAttached E (this_options fd) m of
             Inl err \<Rightarrow> Inl err
           | Inr m' \<Rightarrow> Inr (fd\<lparr>this_map := Some m'\<rparr>)))"

text \<open>
  \<^verbatim>\<open>onAdd\<close> (lines 89-117) with \<^verbatim>\<open>listenForEvents\<close> (lines 234-384): a no-op cancel
  function, an empty store, the initial mode through \<^verbatim>\<open>modeFor\<close>, an empty SVG layer,
  an empty point set, no line iterator, and the handlers for \<^verbatim>\<open>mousedown\<close> and
  \<^verbatim>\<open>touchstart\<close>. \<open>h\<close> is the state of the host map. Before \<^verbatim>\<open>modeFor\<close> runs,
  \<^verbatim>\<open>map[modesKey]\<close> is not a number. The state is that of the closures this call of
  \<^verbatim>\<open>listenForEvents\<close> makes, so the model is of an instance added to a map once:
  \<^verbatim>\<open>onRemove\<close> leaves the \<^verbatim>\<open>mousedown\<close> and \<^verbatim>\<open>touchstart\<close> listeners on the container,
  and after a second \<^verbatim>\<open>onAdd\<close> the handlers of the first would run beside the new
  ones, on variables of their own that this state does not hold.
\<close>

definition onAdd :: "'h \<Rightarrow> 'h freedraw \<Rightarrow> 'h freedraw" where
  "onAdd h fd =
     (let m0 = \<lparr>host = h, modes = NaN, cancelHook = Some Noop, store = Some [],
                notifications = [], svg = [], svgAttached = True,
                latLngs = [], lineIterator = None,
                on_mousemove = False, on_mouseup = False,
                on_touchmove = False, on_touchend = False,
                on_body_mouseleave = False\<rparr>
      in fd\<lparr>this_map := Some (modeFor (mode (this_options fd)) (this_options fd) m0),
             this_mouseDownHandler := True\<rparr>)"

text \<open>
  \<^verbatim>\<open>onRemove\<close> (lines 124-143): the store of the map and the cancel function are
  deleted and the SVG layer leaves the document. \<^verbatim>\<open>this.map\<close> stays. The instance
  and the simplification routine, also deleted from the map, are not fields of the
  state; \<^verbatim>\<open>map.off\<close> names listeners of the map, while \<^verbatim>\<open>mouseDown\<close> was registered on
  the container.
\<close>

definition onRemove :: "'h freedraw \<Rightarrow> 'h freedraw" where
  "onRemove fd =
     fd\<lparr>this_map :=
          map_option (\<lambda>m. m\<lparr>store := None, svgAttached := False, cancelHook := None\<rparr>)
            (this_map fd)\<rparr>"

text \<open>
  The host's side of the layer's life cycle: adding the layer to a map calls \<^verbatim>\<open>onAdd\<close>;
  the superclass's \<^verbatim>\<open>remove\<close> takes the layer off the map it is on, which calls
  \<^verbatim>\<open>onRemove\<close>, and does nothing for a layer that is on no map.
\<close>

definition Layer_addTo :: "'h \<Rightarrow> 'h freedraw \<Rightarrow> 'h freedraw" where
  "Layer_addTo h fd = onAdd h (fd\<lparr>onMap := True\<rparr>)"

definition Layer_remove :: "'h freedraw \<Rightarrow> 'h freedraw" where
  "Layer_remove fd = (if onMap fd then (onRemove fd)\<lparr>onMap := False\<rparr> else fd)"

text \<open>
  \<^verbatim>\<open>remove\<close> (lines 162-165):
  \<^verbatim>\<open>polygon ? removeFor(this.map, polygon) : super.remove(); updateFor(this.map, 'remove')\<close>.
\<close>

definition FreeDraw_remove :: "jsval \<Rightarrow> 'h freedraw \<Rightarrow> 'h freedraw" where
  "FreeDraw_remove polygon fd =
     (let fd1 = (if truthy polygon
                 then fd\<lparr>this_map := map_option (onStore (removeFor polygon)) (this_map fd)\<rparr>
                 else Layer_remove fd)
      in fd1\<lparr>this_map := map_option (updateFor ''remove'') (this_map fd1)\<rparr>)"

text \<open>
  The host delivers the move events of a gesture one after the other; an exception in
  one handler call does not keep the next event from being handled.
\<close>

fun mouseMoves :: "'h env \<Rightarrow> options \<Rightarrow> event list \<Rightarrow> 'h map_state \<Rightarrow> 'h map_state" where
  "mouseMoves E opts [] m = m"
| "mouseMoves E opts (ev # evs) m = mouseMoves E opts evs (snd (mouseMove E opts ev m))"

section \<open>Example inputs\<close>

text \<open>
  A host whose container pixels are the geographic coordinates and which makes a new
  \<^verbatim>\<open>LatLng\<close> object (the next free identity) on every conversion; a simplification and
  a hull that keep every point; an insertion that appends the polygon. The flags are
  \<^verbatim>\<open>CREATE = 1\<close> and \<^verbatim>\<open>ALL = 15\<close>.
\<close>

definition exampleEnv :: "nat env" where
  "exampleEnv = \<lparr>CREATE = Fin 1,
     mouseEventToContainerPoint =
       (\<lambda>p. \<lparr>px = (case clientX p of Some cx \<Rightarrow> cx | None \<Rightarrow> 0),
              py = (case clientY p of Some cy \<Rightarrow> cy | None \<Rightarrow> 0)\<rparr>),
     latLngToContainerPoint = (\<lambda>l. \<lparr>px = lng l, py = lat l\<rparr>),
     containerPointToLatLng = (\<lambda>p n. (\<lparr>ref = n, lat = py p, lng = px p\<rparr>, Suc n)),
     simplifyPolygon = (\<lambda>f ps. ps),
     convexHull = (\<lambda>ps. ps),
     admit = (\<lambda>opts ring st. st @ [\<lparr>pid = length st, boundary = ring\<rparr>])\<rparr>"

definition exampleOptions :: options where
  "exampleOptions = defaultOptions (Fin 15)"

definition leaveOptions :: options where
  "leaveOptions = exampleOptions\<lparr>leaveModeAfterCreate := True\<rparr>"

definition eventAt :: "string \<Rightarrow> rat \<Rightarrow> rat \<Rightarrow> event" where
  "eventAt ty cx cy = \<lparr>clientX = Some cx, clientY = Some cy, touches = None,
     etype = Some ty, latlng = None, originalEvent = None\<rparr>"

text \<open>An instance made with no options and added to a map, and the state of its map.\<close>

definition exampleInstance :: "nat freedraw" where
  "exampleInstance = Layer_addTo 0 (FreeDraw_constructor (Fin 15) None)"

definition exampleMap :: "nat map_state" where
  "exampleMap = \<lparr>host = 0, modes = Fin 15, cancelHook = Some Noop, store = Some [],
     notifications = [], svg = [], svgAttached = True, latLngs = [], lineIterator = None,
     on_mousemove = False, on_mouseup = False, on_touchmove = False, on_touchend = False,
     on_body_mouseleave = False\<rparr>"


definition exampleCapturing :: "nat map_state" where
  "exampleCapturing =
     mouseMoves exampleEnv exampleOptions [eventAt ''mousemove'' 12 10]
       (mouseDown exampleEnv exampleOptions (eventAt ''mousedown'' 10 10) exampleMap)"

definition exampleRevisit :: "nat map_state" where
  "exampleRevisit =
     mouseMoves exampleEnv exampleOptions
       [eventAt ''mousemove'' 12 10, eventAt ''mousemove'' 12 10]
       (mouseDown exampleEnv exampleOptions (eventAt ''mousedown'' 10 10) exampleMap)"


definition exampleCapturingValue :: "nat map_state" where
  "exampleCapturingValue = \<lparr>host = 1, modes = Fin 15, cancelHook = Some CancelCapture,
     store = Some [], notifications = [],
     svg = [\<lparr>lineData = (\<lparr>px = 10, py = 10\<rparr>, \<lparr>px = 12, py = 10\<rparr>),
              pathClass = ''leaflet-line'', pathFill = ''none'',
              pathFillOpacity = Fin 1, pathStroke = ''black'',
              pathStrokeWidth = Fin 2\<rparr>],
     svgAttached = True, latLngs = [\<lparr>ref = 0, lat = 10, lng = 12\<rparr>],
     lineIterator = Some \<lparr>lastPoint = \<lparr>px = 12, py = 10\<rparr>, iterStrokeWidth = Fin 2\<rparr>,
     on_mousemove = True, on_mouseup = True, on_touchmove = False,
     on_touchend = False, on_body_mouseleave = True\<rparr>"

definition exampleCancelled :: "nat map_state" where
  "exampleCancelled = mouseUp exampleEnv exampleOptions emptyObject False exampleCapturing"

text \<open>
  A touch event that carries client coordinates and a touch list of one touch at the
  same place. A touch gesture on the example map: the touch starts at (0, 0), moves to
  (12, 10), (20, 10) and (12, 30), and ends.
\<close>

definition touchAt :: "string \<Rightarrow> rat \<Rightarrow> rat \<Rightarrow> event" where
  "touchAt ty cx cy = \<lparr>clientX = Some cx, clientY = Some cy,
     touches = Some [\<lparr>clientX = Some cx, clientY = Some cy\<rparr>],
     etype = Some ty, latlng = None, originalEvent = None\<rparr>"

definition exampleTouchStart :: "nat map_state" where
  "exampleTouchStart =
     touchStart exampleEnv exampleOptions (touchAt ''touchstart'' 0 0) exampleMap"

definition exampleTouchGesture :: "nat map_state" where
  "exampleTouchGesture =
     mouseUp exampleEnv exampleOptions (eventAt ''touchend'' 12 30) True
       (mouseMoves exampleEnv exampleOptions
          [touchAt ''touchmove'' 12 10, touchAt ''touchmove'' 20 10, touchAt ''touchmove'' 12 30]
          exampleTouchStart)"

text \<open>A caller's options object with two fields: \<^verbatim>\<open>{ mode: 1, strokeWidth: 4 }\<close>.\<close>

definition exampleGiven :: given_options where
  "exampleGiven = \<lparr>
     given_mode = Some (Fin 1), given_smoothFactor = None, given_elbowDistance = None,
     given_simplifyFactor = None, given_mergePolygons = None, given_concavePolygon = None,
     given_maximumPolygons = None, given_notifyAfterEditExit = None,
     given_leaveModeAfterCreate = None, given_strokeWidth = Some (Fin 4),
     given_lineclass = None, given_fill = None, given_fillOpacity = None,
     given_stroke = None\<rparr>"

section \<open>Facts about the values and the examples\<close>

lemma truthy_bitAnd: "truthyNumber (bitAnd a b) \<longleftrightarrow> ToInt32 a AND ToInt32 b \<noteq> 0"
  by (simp add: bitAnd_def signed_eq_0_iff)

text \<open>\<^verbatim>\<open>updateFor\<close> changes the notifications and nothing else.\<close>

lemma updateFor_simps:
  "store (updateFor reason m) = store m"
  "modes (updateFor reason m) = modes m"
  "cancelHook (updateFor reason m) = cancelHook m"
  "svg (updateFor reason m) = svg m"
  "on_mousemove (updateFor reason m) = on_mousemove m"
  "on_mouseup (updateFor reason m) = on_mouseup m"
  "on_touchmove (updateFor reason m) = on_touchmove m"
  "on_touchend (updateFor reason m) = on_touchend m"
  "on_body_mouseleave (updateFor reason m) = on_body_mouseleave m"
  "notifications (updateFor reason m) =
     (case store m of
        None \<Rightarrow> notifications m
      | Some st \<Rightarrow> notifications m @ [(reason, st)])"
  by (simp_all add: updateFor_def split: option.splits)

lemmas example_defs =
  exampleEnv_def exampleOptions_def eventAt_def exampleMap_def defaultOptions_def

lemmas handler_defs =
  mouseDown_def mouseMove_def createPath_def drawTo_def Set_add_def
  pointerOf_def domEventOf_def stringOr_def numberOr_def Let_def

lemma exampleInstance_map: "this_map exampleInstance = Some exampleMap"
  by (simp add: exampleInstance_def Layer_addTo_def onAdd_def FreeDraw_constructor_def
      constructorOptions_def spread_def asGiven_def defaultOptions_def override_def
      modeFor_def exampleMap_def)

lemma exampleCapturing_eval: "exampleCapturing = exampleCapturingValue"
  by (simp add: exampleCapturing_def exampleCapturingValue_def example_defs handler_defs
      truthy_bitAnd)

lemma exampleRevisit_latLngs:
  "latLngs exampleRevisit = [\<lparr>ref = 0, lat = 10, lng = 12\<rparr>, \<lparr>ref = 1, lat = 10, lng = 12\<rparr>]"
  by (simp add: exampleRevisit_def example_defs handler_defs truthy_bitAnd)



section \<open>What \<^verbatim>\<open>mouseUp\<close> does\<close>

lemma mouseUp_pointercancel:
  "etype ev = Some ''pointercancel'' \<Longrightarrow> mouseUp E opts ev create m = m"
  by (simp add: mouseUp_def)

lemma mouseUp_clears:
  assumes "etype ev \<noteq> Some ''pointercancel''"
  shows "on_mousemove (mouseUp E opts ev create m) = False"
    and "on_mouseup (mouseUp E opts ev create m) = False"
    and "on_touchmove (mouseUp E opts ev create m) = False"
    and "on_touchend (mouseUp E opts ev create m) = False"
    and "on_body_mouseleave (mouseUp E opts ev create m) = False"
    and "svg (mouseUp E opts ev create m) = []"
    and "cancelHook (mouseUp E opts ev create m) = Some Noop"
  using assms
  by (simp_all add: mouseUp_def Let_def onStore_def updateFor_simps modeAttached_def modeFor_def)

lemma mouseUp_no_create:
  assumes "etype ev \<noteq> Some ''pointercancel''"
  shows "store (mouseUp E opts ev False m) = store m"
    and "notifications (mouseUp E opts ev False m) = notifications m"
    and "modes (mouseUp E opts ev False m) = modes m"
  using assms by (simp_all add: mouseUp_def Let_def)



text \<open>
  With \<open>leaveModeAfterCreate\<close>, a completing \<^verbatim>\<open>mouseUp\<close> leaves the mode that
  \<^verbatim>\<open>this.mode() ^ CREATE\<close> gives: the bits of \<open>CREATE\<close> are flipped.
\<close>

lemma mouseUp_flips_CREATE:
  "etype ev \<noteq> Some ''pointercancel'' \<Longrightarrow> leaveModeAfterCreate opts \<Longrightarrow>
     modes (mouseUp E opts ev True m) = bitXor (modes m) (CREATE E)"
  by (simp add: mouseUp_def Let_def onStore_def updateFor_simps modeAttached_def modeFor_def)

section \<open>Short strokes (C1)\<close>



text \<open>
  When the simplification and the hull only keep points they were given, a stroke of
  fewer than three captured points has fewer than three usable vertices.
\<close>

lemma few_points_few_vertices:
  assumes simp_sub: "\<And>f ps. set (simplifyPolygon E f ps) \<subseteq> set ps"
    and hull_sub: "\<And>ps. set (convexHull E ps) \<subseteq> set ps"
    and short: "length pts < 3"
  shows "distinctVertices (usableVertices E opts pts) < 3"
proof -
  have sub: "set (usableVertices E opts pts) \<subseteq> set pts"
  proof (cases "concavePolygon opts")
    case True
    then show ?thesis using simp_sub by (simp add: usableVertices_def)
  next
    case False
    have "set (convexHull E (simplifyPolygon E (simplifyFactor opts) pts))
        \<subseteq> set (simplifyPolygon E (simplifyFactor opts) pts)"
      by (rule hull_sub)
    also have "\<dots> \<subseteq> set pts" by (rule simp_sub)
    finally show ?thesis using False by (simp add: usableVertices_def)
  qed
  have "distinctVertices (usableVertices E opts pts)
      = card ((\<lambda>p. (lat p, lng p)) ` set (usableVertices E opts pts))"
    by (simp add: distinctVertices_def length_remdups_card_conv)
  also have "\<dots> \<le> card ((\<lambda>p. (lat p, lng p)) ` set pts)"
    by (rule card_mono) (use sub in auto)
  also have "\<dots> \<le> card (set pts)" by (rule card_image_le) simp
  also have "\<dots> \<le> length pts" by (rule card_length)
  finally show ?thesis using short by simp
qed




section \<open>Leaving the capture (C2)\<close>

text \<open>
  C2, as the code has it. A call of \<^verbatim>\<open>mouseUp\<close> with any event but \<^verbatim>\<open>pointercancel\<close>
  (a pointer-up, a touch end, the pointer leaving the body, \<^verbatim>\<open>cancel\<close>) unregisters the
  move and up listeners and empties the SVG layer, whatever \<open>create\<close> is. A
  \<^verbatim>\<open>pointercancel\<close> event is ignored: \<^verbatim>\<open>mouseUp\<close> returns at once and the state is as it
  was, so no polygon is made and nothing is torn down.
\<close>

theorem mouseUp_teardown_unless_pointercancel:
  "(etype ev \<noteq> Some ''pointercancel'' \<longrightarrow>
      \<not> on_mousemove (mouseUp E opts ev create m) \<and>
      \<not> on_mouseup (mouseUp E opts ev create m) \<and>
      \<not> on_touchmove (mouseUp E opts ev create m) \<and>
      \<not> on_touchend (mouseUp E opts ev create m) \<and>
      \<not> on_body_mouseleave (mouseUp E opts ev create m) \<and>
      svg (mouseUp E opts ev create m) = []) \<and>
   (etype ev = Some ''pointercancel'' \<longrightarrow> mouseUp E opts ev create m = m)"
  by (simp add: mouseUp_clears mouseUp_pointercancel)

text \<open>
  The theorem at the gesture in progress \<open>exampleCapturing\<close>: a \<^verbatim>\<open>mouseup\<close> tears down,
  a \<^verbatim>\<open>pointercancel\<close> changes nothing.
\<close>

theorem mouseUp_teardown_unless_pointercancel_witness:
  "\<not> on_mousemove
       (mouseUp exampleEnv exampleOptions (eventAt ''mouseup'' 12 10) True exampleCapturing) \<and>
   \<not> on_mouseup
       (mouseUp exampleEnv exampleOptions (eventAt ''mouseup'' 12 10) True exampleCapturing) \<and>
   \<not> on_body_mouseleave
       (mouseUp exampleEnv exampleOptions (eventAt ''mouseup'' 12 10) True exampleCapturing) \<and>
   svg (mouseUp exampleEnv exampleOptions (eventAt ''mouseup'' 12 10) True exampleCapturing)
     = [] \<and>
   mouseUp exampleEnv exampleOptions (eventAt ''pointercancel'' 12 10) True exampleCapturing
     = exampleCapturing"
  using mouseUp_teardown_unless_pointercancel
      [where ev = "eventAt ''mouseup'' 12 10" and E = exampleEnv and opts = exampleOptions
        and create = True and m = exampleCapturing]
    mouseUp_teardown_unless_pointercancel
      [where ev = "eventAt ''pointercancel'' 12 10" and E = exampleEnv
        and opts = exampleOptions and create = True and m = exampleCapturing]
  by (simp add: eventAt_def)

text \<open>
  C2 as stated fails: after a \<^verbatim>\<open>pointercancel\<close> during the gesture \<open>exampleCapturing\<close>
  (whose cancel function is armed), the move, up and body listeners are still registered
  and the SVG layer still holds the drawn segment.
\<close>

theorem pointercancel_keeps_listeners_and_canvas:
  "cancelHook exampleCapturing = Some CancelCapture \<and>
   on_mousemove
     (mouseUp exampleEnv exampleOptions (eventAt ''pointercancel'' 12 10) True exampleCapturing) \<and>
   on_mouseup
     (mouseUp exampleEnv exampleOptions (eventAt ''pointercancel'' 12 10) True exampleCapturing) \<and>
   on_body_mouseleave
     (mouseUp exampleEnv exampleOptions (eventAt ''pointercancel'' 12 10) True exampleCapturing) \<and>
   svg (mouseUp exampleEnv exampleOptions (eventAt ''pointercancel'' 12 10) True exampleCapturing)
     \<noteq> []"
  by (simp add: exampleCapturing_eval exampleCapturingValue_def mouseUp_def eventAt_def)

section \<open>The points of a stroke (C3)\<close>

lemma mouseMove_distinct:
  "distinct (map ref (latLngs m)) \<Longrightarrow>
     distinct (map ref (latLngs (snd (mouseMove E opts ev m))))"
  by (auto simp: mouseMove_def Let_def Set_add_def split: option.splits list.splits prod.splits)

lemma mouseDown_distinct:
  "distinct (map ref (latLngs m)) \<Longrightarrow> distinct (map ref (latLngs (mouseDown E opts ev m)))"
  by (simp add: mouseDown_def Let_def)

lemma mouseMoves_distinct:
  "distinct (map ref (latLngs m)) \<Longrightarrow> distinct (map ref (latLngs (mouseMoves E opts evs m)))"
  by (induction evs arbitrary: m) (simp_all add: mouseMove_distinct)

text \<open>
  C3, as the code has it. The point set of a stroke holds objects, and it is free of
  duplicates by object identity: after a pointer-down and any sequence of moves, no two
  members are the same object. Two \<^verbatim>\<open>LatLng\<close> objects with equal latitude and longitude
  are two members.
\<close>

theorem stroke_distinct_by_identity:
  "distinct (map ref (latLngs m)) \<Longrightarrow>
     distinct (map ref (latLngs (mouseMoves E opts evs (mouseDown E opts ev m))))"
  by (simp add: mouseMoves_distinct mouseDown_distinct)

text \<open>The theorem at the gesture that moves to (12, 10) twice.\<close>

theorem stroke_distinct_by_identity_witness:
  "distinct (map ref (latLngs exampleMap)) \<and> distinct (map ref (latLngs exampleRevisit))"
  using stroke_distinct_by_identity [of exampleMap exampleEnv exampleOptions
      "[eventAt ''mousemove'' 12 10, eventAt ''mousemove'' 12 10]" "eventAt ''mousedown'' 10 10"]
  by (simp add: exampleRevisit_def exampleMap_def)

text \<open>
  C3 as stated fails: with a host that makes a new object on every conversion, the
  gesture that visits (12, 10) twice records that position twice.
\<close>

theorem revisited_point_recorded_twice:
  "map (\<lambda>p. (lat p, lng p)) (latLngs exampleRevisit) = [(10, 12), (10, 12)] \<and>
   \<not> distinct (map (\<lambda>p. (lat p, lng p)) (latLngs exampleRevisit))"
  by (simp add: exampleRevisit_latLngs)

section \<open>The gates of \<^verbatim>\<open>mouseDown\<close> and \<^verbatim>\<open>touchStart\<close> (C4, C7)\<close>

text \<open>
  C4. A mouse-down or a touch-start that arrives while the \<open>CREATE\<close> bit is not in the
  mode of the map leaves the state as it was: the cancel function is not armed, no
  listener is registered, the point set, the line iterator and the store are untouched.
\<close>

theorem pointer_down_without_CREATE_ignored:
  "ToInt32 (modes m) AND ToInt32 (CREATE E) = 0 \<Longrightarrow>
     mouseDown E opts ev m = m \<and> touchStart E opts ev m = m"
  by (simp add: mouseDown_def touchStart_def truthy_bitAnd)

text \<open>The theorem at the mode 14 (every flag of the example but \<open>CREATE\<close>).\<close>

theorem pointer_down_without_CREATE_ignored_witness:
  "ToInt32 (modes (exampleMap\<lparr>modes := Fin 14\<rparr>)) AND ToInt32 (CREATE exampleEnv) = 0 \<and>
   mouseDown exampleEnv exampleOptions (eventAt ''mousedown'' 10 10)
       (exampleMap\<lparr>modes := Fin 14\<rparr>)
     = exampleMap\<lparr>modes := Fin 14\<rparr> \<and>
   touchStart exampleEnv exampleOptions (eventAt ''touchstart'' 10 10)
       (exampleMap\<lparr>modes := Fin 14\<rparr>)
     = exampleMap\<lparr>modes := Fin 14\<rparr>"
proof -
  have h: "ToInt32 (modes (exampleMap\<lparr>modes := Fin 14\<rparr>)) AND ToInt32 (CREATE exampleEnv) = 0"
    by (simp add: exampleEnv_def)
  show ?thesis
    using h
      pointer_down_without_CREATE_ignored [OF h, of exampleOptions "eventAt ''mousedown'' 10 10"]
      pointer_down_without_CREATE_ignored [OF h, of exampleOptions "eventAt ''touchstart'' 10 10"]
    by simp
qed

text \<open>
  C7, as the code has it. A mouse-down whose client coordinates are both zero leaves the
  state as it was, whatever the mode: the capture does not start, the point set and the
  line iterator are not replaced, and no listener is registered. The check is in the
  \<^verbatim>\<open>mousedown\<close> handler; nothing is said here of a touch-start.
\<close>

theorem mouseDown_zero_coordinates_ignored:
  "clientX ev = Some 0 \<Longrightarrow> clientY ev = Some 0 \<Longrightarrow> mouseDown E opts ev m = m"
  by (simp add: mouseDown_def)

text \<open>
  The theorem at a mouse-down at (0, 0) in \<open>CREATE\<close> mode; the same event at (10, 10)
  does start a capture.
\<close>

theorem mouseDown_zero_coordinates_ignored_witness:
  "mouseDown exampleEnv exampleOptions (eventAt ''mousedown'' 0 0) exampleMap = exampleMap \<and>
   cancelHook (mouseDown exampleEnv exampleOptions (eventAt ''mousedown'' 10 10) exampleMap)
     = Some CancelCapture"
  using mouseDown_zero_coordinates_ignored
      [of "eventAt ''mousedown'' 0 0" exampleEnv exampleOptions exampleMap]
  by (simp add: example_defs handler_defs truthy_bitAnd)

text \<open>
  \<^verbatim>\<open>touchStart\<close> has no check of the coordinates of its own: in \<open>CREATE\<close> mode it
  registers the touch listeners, and the mouse-down it then simulates is the event that
  is ignored, when the coordinates it is given become zero.
\<close>

lemma touchStart_zero_coordinates:
  "ToInt32 (modes m) AND ToInt32 (CREATE E) \<noteq> 0 \<Longrightarrow>
   toLong (clientX ev) = 0 \<Longrightarrow> toLong (clientY ev) = 0 \<Longrightarrow>
     touchStart E opts ev m = m\<lparr>on_touchmove := True, on_touchend := True\<rparr>"
  by (simp add: touchStart_def mouseDown_def simulateEvent_def truthy_bitAnd)

text \<open>
  C7 as stated fails for a touch-start: in \<open>CREATE\<close> mode a touch-start at (0, 0) on
  the example map, where no touch listener was registered, registers \<^verbatim>\<open>touchmove\<close> and
  \<^verbatim>\<open>touchend\<close>; the moves that follow are recorded and the touch end stores a polygon
  of the three points.
\<close>

theorem touchStart_zero_coordinates_starts_gesture:
  "\<not> on_touchmove exampleMap \<and> \<not> on_touchend exampleMap \<and>
   on_touchmove exampleTouchStart \<and> on_touchend exampleTouchStart \<and>
   store exampleTouchGesture =
     Some [\<lparr>pid = 0,
            boundary = [\<lparr>ref = 0, lat = 10, lng = 12\<rparr>, \<lparr>ref = 1, lat = 10, lng = 20\<rparr>,
                        \<lparr>ref = 2, lat = 30, lng = 12\<rparr>]\<rparr>]"
  by (simp add: exampleTouchGesture_def exampleTouchStart_def touchAt_def touchStart_def
      simulateEvent_def toLong_def example_defs handler_defs truthy_bitAnd mouseUp_def
      onStore_def createFor_def usableVertices_def distinctVertices_def updateFor_def)

section \<open>\<^verbatim>\<open>cancel\<close> (C5)\<close>

lemma cancelAttached_again:
  assumes "cancelAttached E opts m = Inr m'"
  shows "cancelAttached E opts m' = Inr m'"
proof (cases "cancelHook m")
  case None
  with assms show ?thesis by (simp add: cancelAttached_def)
next
  case (Some f)
  show ?thesis
  proof (cases f)
    case Noop
    with Some assms show ?thesis by (auto simp: cancelAttached_def)
  next
    case CancelCapture
    with Some assms have m': "m' = mouseUp E opts emptyObject False m"
      by (auto simp: cancelAttached_def)
    have "cancelHook m' = Some Noop"
      unfolding m' by (rule mouseUp_clears) (simp add: emptyObject_def)
    then show ?thesis by (simp add: cancelAttached_def)
  qed
qed

lemma cancelAttached_store:
  assumes "cancelAttached E opts m = Inr m'"
  shows "store m' = store m \<and> notifications m' = notifications m \<and> modes m' = modes m"
  using assms
  by (auto simp: cancelAttached_def mouseUp_no_create emptyObject_def
      split: option.splits cancel_fn.splits)

lemma cancel_again:
  assumes "cancel E fd = Inr fd'"
  shows "cancel E fd' = Inr fd'"
proof -
  from assms obtain m m' where m: "this_map fd = Some m"
    and c: "cancelAttached E (this_options fd) m = Inr m'"
    and fd': "fd' = fd\<lparr>this_map := Some m'\<rparr>"
    by (auto simp: cancel_def split: option.splits sum.splits)
  from c have "cancelAttached E (this_options fd) m' = Inr m'"
    by (rule cancelAttached_again)
  then show ?thesis by (simp add: cancel_def fd')
qed

lemma exampleCapturing_cancel:
  "cancelAttached exampleEnv exampleOptions exampleCapturing = Inr exampleCancelled"
  by (simp add: cancelAttached_def exampleCancelled_def exampleCapturing_eval
      exampleCapturingValue_def)

text \<open>
  C5. \<^verbatim>\<open>cancel\<close> right after the instance was added to a map returns the instance as
  it is. \<^verbatim>\<open>cancel\<close> after a gesture has ended (after any \<^verbatim>\<open>mouseUp\<close> that was not a
  \<^verbatim>\<open>pointercancel\<close>) returns the state as it is. Whenever a call of \<^verbatim>\<open>cancel\<close> returns,
  a second call returns the very state the first one left, so two calls do what one
  does; the store and the notifications are those from before the first call, so no
  polygon is made.
\<close>

theorem cancel_idempotent:
  "cancel E (Layer_addTo h fd) = Inr (Layer_addTo h fd) \<and>
   (etype ev \<noteq> Some ''pointercancel'' \<longrightarrow>
      cancelAttached E opts (mouseUp E opts ev create m) = Inr (mouseUp E opts ev create m)) \<and>
   (cancelAttached E opts m = Inr m' \<longrightarrow>
      cancelAttached E opts m' = Inr m' \<and> store m' = store m \<and>
      notifications m' = notifications m) \<and>
   (cancel E fd = Inr fd' \<longrightarrow> cancel E fd' = Inr fd')"
proof -
  have a: "cancel E (Layer_addTo h fd) = Inr (Layer_addTo h fd)"
    by (simp add: cancel_def Layer_addTo_def onAdd_def cancelAttached_def modeFor_def)
  have b: "etype ev \<noteq> Some ''pointercancel'' \<Longrightarrow>
      cancelAttached E opts (mouseUp E opts ev create m) = Inr (mouseUp E opts ev create m)"
    by (simp add: cancelAttached_def mouseUp_clears)
  show ?thesis
    using a b cancelAttached_again [of E opts m m'] cancelAttached_store [of E opts m m']
      cancel_again [of E fd fd'] by blast
qed

text \<open>
  The theorem at the gesture in progress \<open>exampleCapturing\<close>: the first \<^verbatim>\<open>cancel\<close> gives
  \<open>exampleCancelled\<close> (listeners off, layer empty), the second leaves it; the store and
  the notifications are untouched; and \<^verbatim>\<open>cancel\<close> on the instance just added changes
  nothing.
\<close>

theorem cancel_idempotent_witness:
  "cancelAttached exampleEnv exampleOptions exampleCapturing = Inr exampleCancelled \<and>
   cancelAttached exampleEnv exampleOptions exampleCancelled = Inr exampleCancelled \<and>
   store exampleCancelled = store exampleCapturing \<and>
   notifications exampleCancelled = notifications exampleCapturing \<and>
   cancel exampleEnv exampleInstance = Inr exampleInstance"
  using exampleCapturing_cancel
    cancel_idempotent [where E = exampleEnv and opts = exampleOptions and m = exampleCapturing
        and m' = exampleCancelled and h = 0
        and fd = "FreeDraw_constructor (Fin 15) None" and ev = emptyObject]
  by (simp add: exampleInstance_def)

section \<open>Leaving the mode after a polygon (C6)\<close>

text \<open>
  C6 fails on the code. With \<open>leaveModeAfterCreate\<close>, a gesture starts in mode 15; while
  it is in progress the application calls \<^verbatim>\<open>mode(14)\<close>, which takes the \<open>CREATE\<close> bit out;
  the pointer-up then computes \<^verbatim>\<open>14 ^ CREATE\<close> and the mode is 15 again, the \<open>CREATE\<close>
  bit set.
\<close>

theorem leaveModeAfterCreate_sets_CREATE_when_unset:
  "modes (mouseUp exampleEnv leaveOptions (eventAt ''mouseup'' 12 10) True
      (snd (modeAttached leaveOptions (JNumber (Fin 14))
        (mouseDown exampleEnv leaveOptions (eventAt ''mousedown'' 10 10) exampleMap)))) = Fin 15 \<and>
   truthyNumber (bitAnd (Fin 15) (CREATE exampleEnv))"
  by (simp add: leaveOptions_def example_defs handler_defs truthy_bitAnd mouseUp_def updateFor_def
      modeAttached_def modeFor_def bitXor_def onStore_def)

section \<open>\<^verbatim>\<open>mode\<close> (C8)\<close>

text \<open>
  C8. On an instance that has a map, \<^verbatim>\<open>mode\<close> called with an argument that is not a
  number does not throw, leaves the instance (and with it the mode of the map) as it is,
  and returns the current mode: what \<^verbatim>\<open>mode()\<close> without an argument returns.
\<close>

theorem mode_non_numeric_is_query:
  "this_map fd = Some m \<Longrightarrow> typeof v \<noteq> ''number'' \<Longrightarrow>
     FreeDraw_mode v fd = Inr (modes m, fd) \<and> FreeDraw_mode v fd = FreeDraw_mode JUndefined fd"
  by (cases v) (simp_all add: FreeDraw_mode_def modeAttached_def)

text \<open>The theorem at the string \<^verbatim>\<open>'create'\<close> on the example instance, whose mode is 15.\<close>

theorem mode_non_numeric_is_query_witness:
  "typeof (JString ''create'') \<noteq> ''number'' \<and>
   FreeDraw_mode (JString ''create'') exampleInstance = Inr (Fin 15, exampleInstance) \<and>
   FreeDraw_mode JUndefined exampleInstance = Inr (Fin 15, exampleInstance)"
  using mode_non_numeric_is_query [OF exampleInstance_map, of "JString ''create''"]
  by (auto simp: exampleMap_def)

text \<open>A number does set the mode, and an instance with no map throws.\<close>

lemma mode_numeric_sets:
  "this_map fd = Some m \<Longrightarrow>
     FreeDraw_mode (JNumber n) fd = Inr (n, fd\<lparr>this_map := Some (m\<lparr>modes := n\<rparr>)\<rparr>)"
  by (simp add: FreeDraw_mode_def modeAttached_def modeFor_def)

lemma mode_without_map: "this_map fd = None \<Longrightarrow> FreeDraw_mode v fd = Inl TypeError"
  by (simp add: FreeDraw_mode_def)

section \<open>The constructor (C9)\<close>

text \<open>
  C9. Without an options object the options of the instance are the defaults: mode
  \<open>ALL\<close>, smoothFactor 0.3, elbowDistance 10, simplifyFactor 1.1, mergePolygons and
  concavePolygon true, maximumPolygons infinite, notifyAfterEditExit and
  leaveModeAfterCreate false, strokeWidth 2. With an options object, each field is the
  one passed when it is present and the default otherwise.
\<close>

theorem constructor_options_defaults_and_overrides:
  "this_options (FreeDraw_constructor A None :: 'h freedraw) =
     \<lparr>mode = A, smoothFactor = Fin (3 / 10), elbowDistance = Fin 10,
      simplifyFactor = Fin (11 / 10), mergePolygons = True, concavePolygon = True,
      maximumPolygons = PosInfinity, notifyAfterEditExit = False,
      leaveModeAfterCreate = False, strokeWidth = Fin 2,
      lineclass = None, fill = None, fillOpacity = None, stroke = None\<rparr> \<and>
   this_options (FreeDraw_constructor A (Some g) :: 'h freedraw) =
     \<lparr>mode = (case given_mode g of Some v \<Rightarrow> v | None \<Rightarrow> A),
      smoothFactor = (case given_smoothFactor g of Some v \<Rightarrow> v | None \<Rightarrow> Fin (3 / 10)),
      elbowDistance = (case given_elbowDistance g of Some v \<Rightarrow> v | None \<Rightarrow> Fin 10),
      simplifyFactor = (case given_simplifyFactor g of Some v \<Rightarrow> v | None \<Rightarrow> Fin (11 / 10)),
      mergePolygons = (case given_mergePolygons g of Some v \<Rightarrow> v | None \<Rightarrow> True),
      concavePolygon = (case given_concavePolygon g of Some v \<Rightarrow> v | None \<Rightarrow> True),
      maximumPolygons = (case given_maximumPolygons g of Some v \<Rightarrow> v | None \<Rightarrow> PosInfinity),
      notifyAfterEditExit = (case given_notifyAfterEditExit g of Some v \<Rightarrow> v | None \<Rightarrow> False),
      leaveModeAfterCreate = (case given_leaveModeAfterCreate g of Some v \<Rightarrow> v | None \<Rightarrow> False),
      strokeWidth = (case given_strokeWidth g of Some v \<Rightarrow> v | None \<Rightarrow> Fin 2),
      lineclass = given_lineclass g, fill = given_fill g,
      fillOpacity = given_fillOpacity g, stroke = given_stroke g\<rparr>"
  by (simp add: FreeDraw_constructor_def constructorOptions_def spread_def asGiven_def
      defaultOptions_def override_def split: option.splits)

text \<open>The theorem at \<^verbatim>\<open>{ mode: 1, strokeWidth: 4 }\<close> with \<open>ALL\<close> = 15.\<close>

theorem constructor_options_defaults_and_overrides_witness:
  "this_options (FreeDraw_constructor (Fin 15) (Some exampleGiven) :: nat freedraw) =
     \<lparr>mode = Fin 1, smoothFactor = Fin (3 / 10), elbowDistance = Fin 10,
      simplifyFactor = Fin (11 / 10), mergePolygons = True, concavePolygon = True,
      maximumPolygons = PosInfinity, notifyAfterEditExit = False,
      leaveModeAfterCreate = False, strokeWidth = Fin 4,
      lineclass = None, fill = None, fillOpacity = None, stroke = None\<rparr>"
  using constructor_options_defaults_and_overrides
      [where A = "Fin 15" and g = exampleGiven and 'h = nat, THEN conjunct2]
  by (simp add: exampleGiven_def)

section \<open>\<^verbatim>\<open>remove\<close> without a polygon (C10)\<close>

text \<open>
  \<^verbatim>\<open>remove\<close> called with a falsy argument (nothing, \<^verbatim>\<open>null\<close>, \<^verbatim>\<open>0\<close>, an empty string,
  \<^verbatim>\<open>false\<close>, NaN) on an instance that has a map takes no polygon out of the store with
  \<^verbatim>\<open>removeFor\<close>: it calls the superclass's \<^verbatim>\<open>remove\<close> and then \<^verbatim>\<open>updateFor\<close>. When the
  layer is on a map, the layer is taken off: \<^verbatim>\<open>onRemove\<close> drops the map's whole store
  and the cancel function, the SVG layer leaves the document, and \<^verbatim>\<open>updateFor\<close> then
  finds no store. When the layer is on no map, only \<^verbatim>\<open>updateFor\<close> acts.
\<close>

lemma remove_falsy:
  "\<not> truthy v \<Longrightarrow> this_map fd = Some m \<Longrightarrow>
     FreeDraw_remove v fd =
       (if onMap fd
        then fd\<lparr>this_map := Some (m\<lparr>store := None, svgAttached := False, cancelHook := None\<rparr>),
                onMap := False\<rparr>
        else fd\<lparr>this_map := Some (updateFor ''remove'' m)\<rparr>)"
  by (simp add: FreeDraw_remove_def Layer_remove_def onRemove_def updateFor_def Let_def)

text \<open>With a polygon, \<^verbatim>\<open>remove\<close> filters the store and the layer stays on its map.\<close>

lemma remove_with_polygon:
  "this_map fd = Some m \<Longrightarrow>
     FreeDraw_remove (JObject r) fd =
       fd\<lparr>this_map := Some (updateFor ''remove'' (onStore (removeFor (JObject r)) m))\<rparr>"
  by (simp add: FreeDraw_remove_def)

text \<open>
  C10 fails on the code. \<^verbatim>\<open>remove(null)\<close> on the example instance, which is on a map,
  takes the layer off the map and sends no notification: the call of \<^verbatim>\<open>updateFor\<close>
  comes after \<^verbatim>\<open>onRemove\<close> has deleted the store of the map. \<^verbatim>\<open>remove\<close> with a polygon
  on the same instance does send the notification with reason \<^verbatim>\<open>remove\<close>.
\<close>

theorem remove_without_polygon_sends_no_notification:
  "FreeDraw_remove JNull exampleInstance =
     exampleInstance\<lparr>this_map := Some (exampleMap\<lparr>store := None, svgAttached := False,
        cancelHook := None\<rparr>), onMap := False\<rparr> \<and>
   map_option notifications (this_map (FreeDraw_remove JNull exampleInstance)) = Some [] \<and>
   map_option notifications (this_map (FreeDraw_remove (JObject 0) exampleInstance))
     = Some [(''remove'', [])]"
proof -
  have t: "\<not> truthy JNull" by simp
  have on: "onMap exampleInstance"
    by (simp add: exampleInstance_def Layer_addTo_def onAdd_def)
  have a: "FreeDraw_remove JNull exampleInstance =
     exampleInstance\<lparr>this_map := Some (exampleMap\<lparr>store := None, svgAttached := False,
        cancelHook := None\<rparr>), onMap := False\<rparr>"
    using on remove_falsy [OF t exampleInstance_map] by simp
  have b: "map_option notifications (this_map (FreeDraw_remove (JObject 0) exampleInstance))
      = Some [(''remove'', [])]"
    by (simp add: remove_with_polygon [OF exampleInstance_map] updateFor_def onStore_def
        removeFor_def exampleMap_def)
  show ?thesis using a b by (simp add: exampleMap_def)
qed

end
